theory Spec2Isabelle
  imports Complex_Main
begin

section \<open>Python values and dictionaries\<close>

text \<open>
  \<^verbatim>\<open>ValueTypes = int | str | bytes | float | bool\<close>. An int is unbounded, a str and a
  bytes object are sequences. A float is represented by the number it denotes (every
  finite double is a rational; \<open>0.0\<close> and \<open>-0.0\<close> denote the same number and compare
  equal), by one of the two infinities, or by a not-a-number object, which carries the
  identity of the object because comparison inside containers looks at identity first.
\<close>

datatype pyfloat = Finite rat | PosInf | NegInf | NaN nat

datatype scalar =
    SInt int
  | SStr string
  | SBytes "nat list"
  | SFloat pyfloat
  | SBool bool

text \<open>
  The number a scalar denotes, when it is numeric: \<open>bool\<close> is a subclass of \<open>int\<close>
  (\<open>True == 1\<close>), and int and float compare by exact value (\<open>1 == 1.0\<close>).
\<close>

fun numeric :: "scalar \<Rightarrow> pyfloat option" where
  "numeric (SInt i) = Some (Finite (of_int i))"
| "numeric (SBool b) = Some (Finite (if b then 1 else 0))"
| "numeric (SFloat f) = Some f"
| "numeric (SStr s) = None"
| "numeric (SBytes b) = None"

text \<open>
  The comparison that containers use for their elements (identity first, then \<open>==\<close>).
  For every value but a not-a-number it is \<open>==\<close>; a not-a-number is equal to the same
  object only. A str never equals a bytes object, and neither equals a number.
\<close>

definition py_eq :: "scalar \<Rightarrow> scalar \<Rightarrow> bool" where
  "py_eq a b =
     (case (numeric a, numeric b) of
        (Some x, Some y) \<Rightarrow> x = y
      | (None, None) \<Rightarrow> a = b
      | _ \<Rightarrow> False)"

text \<open>
  A \<open>dict\<close> keeps its keys in insertion order: an association list with one entry per
  key. Storing under a key that is present replaces the value where the key stands;
  a new key goes to the end.
\<close>

type_synonym ('k, 'v) pydict = "('k \<times> 'v) list"

fun dict_setitem :: "('k, 'v) pydict \<Rightarrow> 'k \<Rightarrow> 'v \<Rightarrow> ('k, 'v) pydict" where
  "dict_setitem [] k v = [(k, v)]"
| "dict_setitem ((k', v') # d) k v =
     (if k' = k then (k', v) # d else (k', v') # dict_setitem d k v)"

text \<open>\<^verbatim>\<open>d.update(pairs)\<close>, and \<^verbatim>\<open>{**d, **e}\<close>: the pairs are stored one after the other.\<close>

definition dict_update :: "('k, 'v) pydict \<Rightarrow> ('k \<times> 'v) list \<Rightarrow> ('k, 'v) pydict" where
  "dict_update d pairs = foldl (\<lambda>acc kv. dict_setitem acc (fst kv) (snd kv)) d pairs"

definition dict_get :: "('k, 'v) pydict \<Rightarrow> 'k \<Rightarrow> 'v option" where
  "dict_get d k = map_of d k"

section \<open>The subset checker\<close>

text \<open>
  \<^verbatim>\<open>CollectionTypes = tuple[PairTypes] | list[PairTypes] | set[PairTypes] | dict[str, ValueTypes]\<close>.
  A tuple and a list are given by their elements in order, a set by its elements in the
  order its iteration yields them, a dict by its items in insertion order.
\<close>

datatype collection =
    TupleC "(string \<times> scalar) list"
  | ListC "(string \<times> scalar) list"
  | SetC "(string \<times> scalar) list"
  | DictC "(string \<times> scalar) list"

fun pairs_of :: "collection \<Rightarrow> (string \<times> scalar) list" where
  "pairs_of (TupleC xs) = xs"
| "pairs_of (ListC xs) = xs"
| "pairs_of (SetC xs) = xs"
| "pairs_of (DictC xs) = xs"

text \<open>\<^verbatim>\<open>dict(c)\<close>: a new dict, filled with the pairs of \<open>c\<close> in iteration order.\<close>

definition dict_of :: "collection \<Rightarrow> (string, scalar) pydict" where
  "dict_of c = dict_update [] (pairs_of c)"

text \<open>
  \<^verbatim>\<open>(k, v) in d.items()\<close>: the key is looked up and the value found is compared
  with \<open>v\<close>.
\<close>

definition items_contains :: "(string, scalar) pydict \<Rightarrow> string \<times> scalar \<Rightarrow> bool" where
  "items_contains d kv =
     (case dict_get d (fst kv) of None \<Rightarrow> False | Some found \<Rightarrow> py_eq found (snd kv))"

text \<open>
  \<^verbatim>\<open>a.items() <= b.items()\<close>: the left view is no longer than the right one and each
  of its items is contained in the right one.
\<close>

definition items_le :: "(string, scalar) pydict \<Rightarrow> (string, scalar) pydict \<Rightarrow> bool" where
  "items_le a b = (length a \<le> length b \<and> list_all (items_contains b) a)"

definition is_subset_of :: "collection \<Rightarrow> collection \<Rightarrow> bool" where
  "is_subset_of superset sub = items_le (dict_of sub) (dict_of superset)"

section \<open>Classes, objects and exceptions\<close>

text \<open>
  \<open>type(C)\<close> of a class \<open>C\<close>: the built-in \<open>type\<close>, \<open>abc.ABCMeta\<close>, or any other
  metaclass, known by its \<open>__name__\<close> (a subclass of \<open>ABCMeta\<close> is another metaclass).
\<close>

datatype metaclass = Type | ABCMeta | CustomMeta string

text \<open>
  What the spy factory reads of a class: its \<open>__name__\<close>, its metaclass, the names of
  its members (its contract) and its \<open>__doc__\<close>.
\<close>

record pyclass =
  cls_name :: string
  cls_meta :: metaclass
  cls_members :: "string list"
  cls_doc :: "string option"

text \<open>
  The values that travel as arguments and results. An object is known by its identity;
  an \<open>asyncio.Future\<close> is pending (\<open>None\<close>) or holds its result; a mock is known by
  the identity of its root mock and the names that lead from the root to it (the root
  itself has none, its child \<open>m.__aenter__.return_value\<close> has \<open>__aenter__\<close> and \<open>()\<close>).
\<close>

datatype pyval =
    VNone
  | VBool bool
  | VInt int
  | VStr string
  | VClass pyclass
  | VObj nat
  | VFuture "pyval option"
  | VMock nat "string list"

datatype pyexn = Exn (exn_type: string) (exn_msg: string)

definition TypeError :: "string \<Rightarrow> pyexn" where
  "TypeError msg = Exn ''TypeError'' msg"

type_synonym kwargs = "(string, pyval) pydict"

text \<open>
  What calling a class with \<open>(*args, **kwargs)\<close> does: it raises, or it yields the
  attributes of the new object.
\<close>

type_synonym ctor = "pyval list \<Rightarrow> kwargs \<Rightarrow> pyexn + kwargs"

text \<open>
  What \<open>make_spy\<close> may receive as its target: a class with the behaviour of calling it,
  a plain function (\<open>def\<close> or \<open>lambda\<close>), or any other object. Of such an object two
  names are read: the name of \<open>type(target)\<close>, and the name of \<open>target.__class__\<close> when
  the object has that attribute. The two agree unless the object overrides
  \<open>__class__\<close>: a mock made with a spec reports the spec's class there.
\<close>

datatype target =
    Class pyclass ctor
  | Function string
  | Object string "string option"

datatype pytype = Meta metaclass | FunctionType | Plain string

fun type_of :: "target \<Rightarrow> pytype" where
  "type_of (Class c init) = Meta (cls_meta c)"
| "type_of (Function n) = FunctionType"
| "type_of (Object ty cls) = Plain ty"

fun type_name :: "pytype \<Rightarrow> string" where
  "type_name (Meta Type) = ''type''"
| "type_name (Meta ABCMeta) = ''ABCMeta''"
| "type_name (Meta (CustomMeta n)) = n"
| "type_name FunctionType = ''function''"
| "type_name (Plain n) = n"

text \<open>
  The name of \<open>target.__class__\<close>, when the target has the attribute: for a class it is
  its metaclass, for a function \<open>function\<close>, for another object what the object reports.
\<close>

fun dunder_class :: "target \<Rightarrow> string option" where
  "dunder_class (Class c init) = Some (type_name (Meta (cls_meta c)))"
| "dunder_class (Function n) = Some (type_name FunctionType)"
| "dunder_class (Object ty cls) = cls"

text \<open>\<^verbatim>\<open>getattr(target, "__class__", object).__name__\<close>.\<close>

definition class_name_of :: "target \<Rightarrow> string" where
  "class_name_of t = (case dunder_class t of None \<Rightarrow> ''object'' | Some n \<Rightarrow> n)"

fun is_class :: "target \<Rightarrow> bool" where
  "is_class (Class c init) = True"
| "is_class (Function n) = False"
| "is_class (Object ty cls) = False"

fun is_function :: "target \<Rightarrow> bool" where
  "is_function (Class c init) = False"
| "is_function (Function n) = True"
| "is_function (Object ty cls) = False"

fun is_instance :: "target \<Rightarrow> bool" where
  "is_instance (Class c init) = False"
| "is_instance (Function n) = False"
| "is_instance (Object ty cls) = True"

text \<open>
  The objects that exist, each under its identity, and the record of every call of a
  target class: the class's name and the arguments of the call.
\<close>

record pyobject =
  obj_class :: pyclass
  obj_attrs :: kwargs

record world =
  next_id :: nat
  heap :: "(nat, pyobject) pydict"
  constructed :: "(string \<times> pyval list \<times> kwargs) list"

text \<open>\<^verbatim>\<open>target(*target_args, **target_kwargs)\<close> for a class: a new object, or the exception.\<close>

definition call_class ::
  "pyclass \<Rightarrow> ctor \<Rightarrow> pyval list \<Rightarrow> kwargs \<Rightarrow> world \<Rightarrow> (pyexn + nat) \<times> world" where
  "call_class c init args kw w =
     (let w1 = w\<lparr>constructed := constructed w @ [(cls_name c, args, kw)]\<rparr> in
      case init args kw of
        Inl e \<Rightarrow> (Inl e, w1)
      | Inr attrs \<Rightarrow>
          (Inr (next_id w1),
           w1\<lparr>next_id := Suc (next_id w1),
              heap := dict_setitem (heap w1) (next_id w1)
                        \<lparr>obj_class = c, obj_attrs = attrs\<rparr>\<rparr>))"

text \<open>\<^verbatim>\<open>instance.__doc__\<close>: the object's own attribute, else its class's.\<close>

definition getattr_doc :: "world \<Rightarrow> nat \<Rightarrow> pyval" where
  "getattr_doc w i =
     (case dict_get (heap w) i of
        None \<Rightarrow> VNone
      | Some obj \<Rightarrow>
          (case dict_get (obj_attrs obj) ''__doc__'' of
             Some v \<Rightarrow> v
           | None \<Rightarrow> (case cls_doc (obj_class obj) of None \<Rightarrow> VNone | Some d \<Rightarrow> VStr d)))"

section \<open>The spy factory\<close>

text \<open>
  A proxy is an object of the wrapper class, which belongs to \<open>unittest.mock\<close> and not
  to this program: it is known by the class that built it, the arguments of the
  constructor call, and the \<open>__doc__\<close> that the factory stores on it.
\<close>

record proxy =
  p_kind :: string
  p_args :: "pyval list"
  p_kw :: kwargs
  p_doc :: pyval

text \<open>The \<open>wrapper\<close> parameter: a class, with its \<open>__name__\<close> and what calling it does.\<close>

record wrapper =
  w_name :: string
  w_new :: "pyval list \<Rightarrow> kwargs \<Rightarrow> pyexn + proxy"

text \<open>
  \<open>_SpyFactory\<close>: the attribute \<open>_instance\<close> and \<open>__name__\<close>, and the variables of
  \<open>make_spy\<close> that \<open>__call__\<close> closes over (\<open>target\<close>, \<open>instance\<close>, \<open>wrapper\<close>). The text of
  the factory's \<open>__doc__\<close> is left out.
\<close>

record factory =
  f_instance :: nat
  f_name :: string
  f_target :: pyclass
  f_closure_instance :: nat
  f_wrapper :: wrapper

text \<open>The property \<open>instance\<close>: \<^verbatim>\<open>return self._instance\<close>.\<close>

definition factory_instance :: "factory \<Rightarrow> nat" where
  "factory_instance f = f_instance f"

text \<open>
  \<^verbatim>\<open>override = {"spec": target, "spec_set": target, "wraps": instance}\<close>
  \<^verbatim>\<open>kw = {"name": f"{target.__name__}()", **kwargs, **override}\<close>
\<close>

definition factory_kw :: "factory \<Rightarrow> kwargs \<Rightarrow> kwargs" where
  "factory_kw f kw_in =
     (let override = [(''spec'', VClass (f_target f)),
                      (''spec_set'', VClass (f_target f)),
                      (''wraps'', VObj (f_closure_instance f))]
      in dict_update
           (dict_update [(''name'', VStr (cls_name (f_target f) @ ''()''))] kw_in)
           override)"

text \<open>
  \<open>_SpyFactory.__call__\<close>: the wrapper is called with the caller's positional arguments
  and the merged configuration; the proxy gets the instance's \<open>__doc__\<close>. No object of
  the target class is made and the factory is not assigned to.
\<close>

definition factory_call ::
  "factory \<Rightarrow> pyval list \<Rightarrow> kwargs \<Rightarrow> world \<Rightarrow> (pyexn + proxy) \<times> world" where
  "factory_call f args kw_in w =
     (case w_new (f_wrapper f) args (factory_kw f kw_in) of
        Inl e \<Rightarrow> (Inl e, w)
      | Inr spy \<Rightarrow> (Inr (spy\<lparr>p_doc := getattr_doc w (f_closure_instance f)\<rparr>), w))"

text \<open>
  \<open>make_spy(target, *target_args, wrapper=MagicMock, **target_kwargs)\<close>. A target whose
  type is \<open>type\<close> or \<open>ABCMeta\<close> is a class, so the last case is never reached.
\<close>

definition make_spy ::
  "target \<Rightarrow> pyval list \<Rightarrow> wrapper \<Rightarrow> kwargs \<Rightarrow> world \<Rightarrow> (pyexn + factory) \<times> world" where
  "make_spy t target_args wr target_kwargs w =
     (if type_of t \<noteq> Meta Type \<and> type_of t \<noteq> Meta ABCMeta then
        (if type_of t = FunctionType then
           (Inl (TypeError
              ''The target must be a class like object - received a FunctionType.''), w)
         else
           (let class_name = class_name_of t in
            (Inl (TypeError (''Received an instance of '' @ class_name
                    @ ''(), expected target='' @ class_name @ ''.'')), w)))
      else
        (case t of
           Class c init \<Rightarrow>
             (case call_class c init target_args target_kwargs w of
                (Inl e, w1) \<Rightarrow> (Inl e, w1)
              | (Inr inst, w1) \<Rightarrow>
                  (Inr \<lparr>f_instance = inst,
                        f_name = cls_name c @ ''SpyFactory'',
                        f_target = c,
                        f_closure_instance = inst,
                        f_wrapper = wr\<rparr>, w1))
         | _ \<Rightarrow> (Inl (TypeError ''object is not callable''), w)))"

text \<open>The factory called once for each request of a list, one call after the other.\<close>

fun factory_calls ::
  "factory \<Rightarrow> (pyval list \<times> kwargs) list \<Rightarrow> world \<Rightarrow> (pyexn + proxy) list \<times> world" where
  "factory_calls f [] w = ([], w)"
| "factory_calls f (req # reqs) w =
     (case factory_call f (fst req) (snd req) w of
        (r, w1) \<Rightarrow> (case factory_calls f reqs w1 of (rs, w2) \<Rightarrow> (r # rs, w2)))"

text \<open>
  Modelled from the spec: the call-recording primitive of \<open>unittest.mock\<close>, which this
  program configures and does not contain. A proxy of the given kind is constructed with
  the positional arguments and the merged configuration.
\<close>

definition recording_proxy :: "string \<Rightarrow> wrapper" where
  "recording_proxy kind =
     \<lparr>w_name = kind,
      w_new = (\<lambda>args kw. Inr \<lparr>p_kind = kind, p_args = args, p_kw = kw, p_doc = VNone\<rparr>)\<rparr>"

definition MagicMock :: wrapper where
  "MagicMock = recording_proxy ''MagicMock''"



section \<open>The asynchronous context manager\<close>

text \<open>
  An \<open>async def\<close> whose body has no suspension point: awaiting its coroutine runs the
  body to its \<open>return\<close> or to the exception it raises.
\<close>

datatype coroutine = Coroutine "pyexn + pyval"

fun await :: "coroutine \<Rightarrow> pyexn + pyval" where
  "await (Coroutine r) = r"

text \<open>\<open>Future()\<close> is pending; \<open>set_result\<close> on a future that is not pending raises.\<close>

definition Future :: "pyval option" where
  "Future = None"

definition set_result :: "pyval option \<Rightarrow> pyval \<Rightarrow> pyexn + pyval option" where
  "set_result fut v =
     (case fut of
        None \<Rightarrow> Inr (Some v)
      | Some old \<Rightarrow> Inl (Exn ''InvalidStateError'' ''invalid state''))"

text \<open>
  The method \<open>__aenter__\<close> that the class body of \<open>AsyncContextManagerMock\<close> defines:
  \<^verbatim>\<open>return self\<close>. Whether the enter operation of a proxy reaches this method is
  decided by the base class, see \<open>proxy_aenter\<close>.
\<close>

definition aenter :: "pyval \<Rightarrow> coroutine" where
  "aenter self = Coroutine (Inr self)"

text \<open>
  The method \<open>__aexit__\<close> that the class body of \<open>AsyncContextManagerMock\<close> defines:
  \<^verbatim>\<open>result = Future(); result.set_result(None); return result\<close>. Whether the exit
  operation of a proxy reaches this method is decided by the base class, see
  \<open>proxy_aexit\<close>.
\<close>

definition aexit :: "pyval \<Rightarrow> pyval \<Rightarrow> pyval \<Rightarrow> pyval \<Rightarrow> coroutine" where
  "aexit self exc_type exc tb =
     Coroutine
       (case set_result Future VNone of
          Inl e \<Rightarrow> Inl e
        | Inr result \<Rightarrow> Inr (VFuture result))"

text \<open>
  \<open>bool(v)\<close>: \<open>None\<close>, \<open>False\<close>, zero and the empty string are false. A class, a future,
  a mock and an object defining neither \<open>__bool__\<close> nor \<open>__len__\<close> are true.
\<close>

fun truthy :: "pyval \<Rightarrow> bool" where
  "truthy VNone = False"
| "truthy (VBool b) = b"
| "truthy (VInt i) = (i \<noteq> 0)"
| "truthy (VStr s) = (s \<noteq> [])"
| "truthy (VClass c) = True"
| "truthy (VObj i) = True"
| "truthy (VFuture r) = True"
| "truthy (VMock i path) = True"

text \<open>
  \<open>async with\<close> swallows the exception that leaves its body when the awaited
  \<open>__aexit__\<close> returns a true value.
\<close>

definition suppresses :: "pyexn + pyval \<Rightarrow> bool" where
  "suppresses r = (case r of Inl e \<Rightarrow> False | Inr v \<Rightarrow> truthy v)"

text \<open>
  \<open>class AsyncContextManagerMock(MagicMock)\<close>: the base class belongs to
  \<open>unittest.mock\<close>. What a proxy carries of it: its identity, \<open>_mock_methods\<close> (the
  names of the spec, \<open>None\<close> for a mock made without a spec) and \<open>mock_calls\<close>.
\<close>

record amock =
  am_id :: nat
  am_methods :: "string list option"
  am_calls :: "(string \<times> pyval list) list"

text \<open>\<^verbatim>\<open>AsyncContextManagerMock()\<close> and \<^verbatim>\<open>AsyncContextManagerMock(spec=C)\<close>.\<close>

definition new_amock :: "nat \<Rightarrow> pyclass option \<Rightarrow> amock" where
  "new_amock i spec =
     \<lparr>am_id = i, am_methods = map_option cls_members spec, am_calls = []\<rparr>"

text \<open>
  \<open>MagicMixin._mock_set_magics\<close>: every mock has a class of its own, and on that class
  the base class installs an entry for each supported magic name, \<open>__aenter__\<close> and
  \<open>__aexit__\<close> among them: for all of them when the mock has no spec, and only for
  those that the spec has otherwise. An entry installed on the mock's own class shadows
  the method of that name in the class body of \<open>AsyncContextManagerMock\<close>.
\<close>

definition magic_installed :: "amock \<Rightarrow> string \<Rightarrow> bool" where
  "magic_installed p name =
     (case am_methods p of None \<Rightarrow> True | Some names \<Rightarrow> name \<in> set names)"

text \<open>
  An installed entry is a child mock of the proxy (an \<open>AsyncMock\<close> for an asynchronous
  magic name). Awaiting a call of it records the call on the proxy and yields the
  child's return value. \<open>__aenter__\<close> has no fixed return value: the call yields the
  child mock \<open>proxy.__aenter__.return_value\<close>.
\<close>

definition library_aenter :: "amock \<Rightarrow> (pyexn + pyval) \<times> amock" where
  "library_aenter p =
     (Inr (VMock (am_id p) [''__aenter__'', ''()'']),
      p\<lparr>am_calls := am_calls p @ [(''__aenter__'', [])]\<rparr>)"

text \<open>The return value of an installed \<open>__aexit__\<close> is \<open>False\<close> (the table \<open>_return_values\<close>).\<close>

definition library_aexit :: "amock \<Rightarrow> pyval \<Rightarrow> pyval \<Rightarrow> pyval \<Rightarrow> (pyexn + pyval) \<times> amock" where
  "library_aexit p exc_type exc tb =
     (Inr (VBool False),
      p\<lparr>am_calls := am_calls p @ [(''__aexit__'', [exc_type, exc, tb])]\<rparr>)"

text \<open>
  The enter operation of a proxy, \<^verbatim>\<open>await proxy.__aenter__()\<close>: the installed entry
  when there is one, else the method of the class body, which records nothing.
\<close>

definition proxy_aenter :: "amock \<Rightarrow> (pyexn + pyval) \<times> amock" where
  "proxy_aenter p =
     (if magic_installed p ''__aenter__'' then library_aenter p
      else (await (aenter (VMock (am_id p) [])), p))"

text \<open>The exit operation of a proxy, \<^verbatim>\<open>await proxy.__aexit__(exc_type, exc, tb)\<close>.\<close>

definition proxy_aexit :: "amock \<Rightarrow> pyval \<Rightarrow> pyval \<Rightarrow> pyval \<Rightarrow> (pyexn + pyval) \<times> amock" where
  "proxy_aexit p exc_type exc tb =
     (if magic_installed p ''__aexit__'' then library_aexit p exc_type exc tb
      else (await (aexit (VMock (am_id p) []) exc_type exc tb), p))"

section \<open>Example objects\<close>

text \<open>
  A class of the built-in metaclass, a class of another metaclass (named \<open>EnumMeta\<close>),
  a constructor that keeps its keyword arguments as attributes, one that raises, and the
  factory and the world that \<open>make_spy\<close> yields for the first class in an empty world.
\<close>

definition Client :: pyclass where
  "Client = \<lparr>cls_name = ''Client'', cls_meta = Type,
             cls_members = [''chat'', ''build_payload''], cls_doc = Some ''A client.''\<rparr>"

definition Color :: pyclass where
  "Color = \<lparr>cls_name = ''Color'', cls_meta = CustomMeta ''EnumMeta'',
            cls_members = [''name'', ''value''], cls_doc = None\<rparr>"

definition keep_kwargs :: ctor where
  "keep_kwargs args kw = Inr kw"

definition refuse :: ctor where
  "refuse args kw = Inl (Exn ''ValueError'' ''bad url'')"

definition empty_world :: world where
  "empty_world = \<lparr>next_id = 0, heap = [], constructed = []\<rparr>"

definition Client_world :: world where
  "Client_world = \<lparr>next_id = 1,
         heap = [(0, \<lparr>obj_class = Client, obj_attrs = [(''api_url'', VStr ''u'')]\<rparr>)],
         constructed = [(''Client'', [], [(''api_url'', VStr ''u'')])]\<rparr>"

definition Client_factory :: factory where
  "Client_factory = \<lparr>f_instance = 0, f_name = ''ClientSpyFactory'', f_target = Client,
     f_closure_instance = 0, f_wrapper = MagicMock\<rparr>"

section \<open>Facts about dictionaries\<close>

lemma map_of_dict_setitem: "map_of (dict_setitem d k v) = (map_of d)(k \<mapsto> v)"
  by (induction d) (auto simp: fun_eq_iff)

lemma keys_dict_setitem: "fst ` set (dict_setitem d k v) = insert k (fst ` set d)"
  by (induction d) force+

lemma distinct_dict_setitem:
  "distinct (map fst d) \<Longrightarrow> distinct (map fst (dict_setitem d k v))"
  by (induction d) (auto simp: keys_dict_setitem)

lemma dict_update_Nil: "dict_update d [] = d"
  by (simp add: dict_update_def)

lemma dict_update_Cons:
  "dict_update d (kv # pairs) = dict_update (dict_setitem d (fst kv) (snd kv)) pairs"
  by (simp add: dict_update_def)

lemma dict_update_append:
  "dict_update d (xs @ ys) = dict_update (dict_update d xs) ys"
  by (simp add: dict_update_def)

lemma map_of_dict_update_at:
  "map_of (dict_update d pairs) k = (map_of d ++ map_of (rev pairs)) k"
proof (induction pairs arbitrary: d)
  case Nil
  show ?case by (simp add: dict_update_Nil)
next
  case (Cons kv pairs)
  obtain k' v' where kv: "kv = (k', v')" by (cases kv)
  show ?case
    by (simp add: kv dict_update_Cons Cons.IH map_of_dict_setitem map_add_def
        split: option.splits)
qed

lemma map_of_dict_update: "map_of (dict_update d pairs) = map_of d ++ map_of (rev pairs)"
  by (rule ext) (rule map_of_dict_update_at)

lemma distinct_dict_update:
  "distinct (map fst d) \<Longrightarrow> distinct (map fst (dict_update d pairs))"
  by (induction pairs arbitrary: d) (simp_all add: dict_update_Nil dict_update_Cons distinct_dict_setitem)

lemma distinct_dict_of: "distinct (map fst (dict_of c))"
  by (simp add: dict_of_def distinct_dict_update)

text \<open>The last pair stored under a key decides the value.\<close>

lemma dict_update_last:
  assumes "k \<notin> fst ` set zs"
  shows "map_of (dict_update d (ys @ (k, v) # zs)) k = Some v"
proof -
  have "map_of (rev zs) k = None"
    using assms by (simp add: map_of_eq_None_iff)
  then show ?thesis
    by (simp add: map_of_dict_update map_add_def split: option.splits)
qed

text \<open>
  In a dict each key stands once, so a dict whose keys all belong to another one is no
  longer than it: the length test of the view comparison follows from the containment.
\<close>

lemma contained_imp_shorter:
  assumes da: "distinct (map fst a)" and sub: "fst ` set a \<subseteq> fst ` set b"
  shows "length a \<le> length b"
proof -
  have "length a = card (fst ` set a)"
    using da by (metis distinct_card length_map set_map)
  also have "\<dots> \<le> card (fst ` set b)"
    using sub by (simp add: card_mono)
  also have "\<dots> \<le> length b"
    by (metis card_length length_map set_map)
  finally show ?thesis .
qed

lemma items_contains_iff:
  "items_contains d (k, v) \<longleftrightarrow> (\<exists>v'. map_of d k = Some v' \<and> py_eq v' v)"
  by (simp add: items_contains_def dict_get_def split: option.splits)

lemma items_contains_key: "items_contains d kv \<Longrightarrow> fst kv \<in> fst ` set d"
  by (cases kv) (auto simp: items_contains_iff dest!: map_of_SomeD intro: rev_image_eqI)

lemma items_le_iff:
  assumes da: "distinct (map fst a)"
  shows "items_le a b \<longleftrightarrow>
    (\<forall>k v. map_of a k = Some v \<longrightarrow> (\<exists>v'. map_of b k = Some v' \<and> py_eq v' v))"
proof
  assume le: "items_le a b"
  show "\<forall>k v. map_of a k = Some v \<longrightarrow> (\<exists>v'. map_of b k = Some v' \<and> py_eq v' v)"
  proof (intro allI impI)
    fix k v
    assume "map_of a k = Some v"
    then have "(k, v) \<in> set a" by (rule map_of_SomeD)
    with le have "items_contains b (k, v)"
      by (simp add: items_le_def list_all_iff)
    then show "\<exists>v'. map_of b k = Some v' \<and> py_eq v' v"
      by (simp add: items_contains_iff)
  qed
next
  assume r: "\<forall>k v. map_of a k = Some v \<longrightarrow> (\<exists>v'. map_of b k = Some v' \<and> py_eq v' v)"
  have all: "list_all (items_contains b) a"
    unfolding list_all_iff
  proof
    fix kv
    assume "kv \<in> set a"
    then have "(fst kv, snd kv) \<in> set a" by simp
    then have "map_of a (fst kv) = Some (snd kv)"
      using da by (simp only: map_of_eq_Some_iff)
    with r have "\<exists>v'. map_of b (fst kv) = Some v' \<and> py_eq v' (snd kv)"
      by blast
    then show "items_contains b kv"
      by (cases kv) (simp add: items_contains_iff)
  qed
  have "fst ` set a \<subseteq> fst ` set b"
    using all by (auto simp: list_all_iff dest: items_contains_key)
  with da have "length a \<le> length b"
    by (rule contained_imp_shorter)
  with all show "items_le a b"
    by (simp add: items_le_def)
qed

lemma is_subset_of_iff_items:
  "is_subset_of superset sub \<longleftrightarrow>
     (\<forall>k v. map_of (dict_of sub) k = Some v \<longrightarrow>
        (\<exists>v'. map_of (dict_of superset) k = Some v' \<and> py_eq v' v))"
  unfolding is_subset_of_def by (rule items_le_iff) (rule distinct_dict_of)

lemma map_of_rev_distinct:
  "distinct (map fst xs) \<Longrightarrow> map_of (rev xs) = map_of xs"
  by (rule map_of_inject_set[THEN iffD2]) (simp_all add: rev_map[symmetric])

section \<open>The subset checker: results\<close>

text \<open>
  C4. \<open>is_subset_of superset subset\<close> is true exactly when every item of the subset's
  mapping form is present in the superset's mapping form with an equal value (equal as
  containers compare: \<open>py_eq\<close>). The function is a function of its two arguments alone.
  \<open>is_subset_of({a:1, b:2}, {a:1})\<close> is true, \<open>is_subset_of({a:1}, {a:2})\<close> is false, and
  an empty subset, in any of the four forms, is a subset of every superset.
\<close>

theorem is_subset_of_spec:
  "(is_subset_of superset sub \<longleftrightarrow>
     (\<forall>k v. dict_get (dict_of sub) k = Some v \<longrightarrow>
        (\<exists>v'. dict_get (dict_of superset) k = Some v' \<and> py_eq v' v)))
   \<and> is_subset_of (DictC [(''a'', SInt 1), (''b'', SInt 2)]) (DictC [(''a'', SInt 1)])
   \<and> \<not> is_subset_of (DictC [(''a'', SInt 1)]) (DictC [(''a'', SInt 2)])
   \<and> is_subset_of superset (DictC [])
   \<and> is_subset_of superset (ListC [])
   \<and> is_subset_of superset (TupleC [])
   \<and> is_subset_of superset (SetC [])"
proof -
  have ex1: "is_subset_of (DictC [(''a'', SInt 1), (''b'', SInt 2)]) (DictC [(''a'', SInt 1)])"
    by (simp add: is_subset_of_def items_le_def items_contains_def dict_of_def
        dict_update_def dict_get_def py_eq_def)
  have ex2: "\<not> is_subset_of (DictC [(''a'', SInt 1)]) (DictC [(''a'', SInt 2)])"
    by (simp add: is_subset_of_def items_le_def items_contains_def dict_of_def
        dict_update_def dict_get_def py_eq_def)
  have empty: "pairs_of c = [] \<Longrightarrow> is_subset_of superset c" for c
    by (simp add: is_subset_of_def items_le_def dict_of_def dict_update_def)
  have main: "is_subset_of superset sub \<longleftrightarrow>
     (\<forall>k v. dict_get (dict_of sub) k = Some v \<longrightarrow>
        (\<exists>v'. dict_get (dict_of superset) k = Some v' \<and> py_eq v' v))"
    unfolding dict_get_def by (rule is_subset_of_iff_items)
  from main ex1 ex2 show ?thesis
    by (intro conjI) (simp_all add: empty)
qed

text \<open>
  The theorem at a superset given as a dict and a subset given as a list with a
  repeated key: the list's mapping binds \<open>a\<close> to \<open>True\<close>, which equals the \<open>1.0\<close> found
  in the superset.
\<close>

theorem is_subset_of_spec_witness:
  "dict_get (dict_of (ListC [(''a'', SInt 1), (''a'', SBool True)])) ''a'' = Some (SBool True)
   \<and> dict_get (dict_of (DictC [(''a'', SFloat (Finite 1)), (''b'', SStr ''x'')])) ''a''
       = Some (SFloat (Finite 1))
   \<and> py_eq (SFloat (Finite 1)) (SBool True)
   \<and> is_subset_of (DictC [(''a'', SFloat (Finite 1)), (''b'', SStr ''x'')])
        (ListC [(''a'', SInt 1), (''a'', SBool True)])"
  using is_subset_of_spec [of "DictC [(''a'', SFloat (Finite 1)), (''b'', SStr ''x'')]"
      "ListC [(''a'', SInt 1), (''a'', SBool True)]"]
  by (simp add: is_subset_of_def items_le_def items_contains_def dict_of_def
      dict_update_def dict_get_def py_eq_def)

text \<open>
  C10, as stated: whenever a sequence holds a pair \<open>(k, v1)\<close> before a pair \<open>(k, v2)\<close>,
  the mapping binds \<open>k\<close> to \<open>v2\<close>. It fails when the key occurs a third time: the list
  \<open>[(k, 1), (k, 2), (k, 3)]\<close> holds \<open>(k, 1)\<close> before \<open>(k, 2)\<close>, and its mapping binds \<open>k\<close>
  to \<open>3\<close>.
\<close>

theorem later_pair_counterexample:
  "dict_get
     (dict_of (ListC ([] @ (''k'', SInt 1) # [] @ (''k'', SInt 2) # [(''k'', SInt 3)]))) ''k''
     = Some (SInt 3)
   \<and> \<not> py_eq (SInt 3) (SInt 2)"
  by (simp add: dict_of_def dict_update_def dict_get_def py_eq_def)

text \<open>
  C10, amended: whenever a sequence (a list or a tuple) holds a pair \<open>(k, v1)\<close> before a
  pair \<open>(k, v2)\<close> and no pair after \<open>(k, v2)\<close> has the key \<open>k\<close>, the mapping that the
  subset comparison uses binds \<open>k\<close> to \<open>v2\<close>: the last occurrence wins.
\<close>

theorem last_pair_wins:
  "xs = ys @ (k, v1) # ms @ (k, v2) # zs \<and> k \<notin> fst ` set zs \<longrightarrow>
     dict_get (dict_of (ListC xs)) k = Some v2 \<and> dict_get (dict_of (TupleC xs)) k = Some v2"
proof
  assume a: "xs = ys @ (k, v1) # ms @ (k, v2) # zs \<and> k \<notin> fst ` set zs"
  then have "xs = (ys @ (k, v1) # ms) @ (k, v2) # zs" by simp
  then have "map_of (dict_update [] xs) k = Some v2"
    using a dict_update_last by metis
  then show "dict_get (dict_of (ListC xs)) k = Some v2 \<and> dict_get (dict_of (TupleC xs)) k = Some v2"
    by (simp add: dict_of_def dict_get_def)
qed

theorem last_pair_wins_witness:
  "dict_get
     (dict_of (ListC [(''k'', SInt 1), (''j'', SInt 5), (''k'', SInt 2), (''i'', SInt 0)])) ''k''
     = Some (SInt 2)
   \<and> ''k'' \<notin> fst ` set [(''i'', SInt 0)]"
  using last_pair_wins [of "[(''k'', SInt 1), (''j'', SInt 5), (''k'', SInt 2), (''i'', SInt 0)]"
      "[]" "''k''" "SInt 1" "[(''j'', SInt 5)]" "SInt 2" "[(''i'', SInt 0)]"]
  by simp

section \<open>Facts about the spy factory\<close>

lemma make_spy_Class:
  "make_spy (Class c init) targs wr tkw w =
     (if cls_meta c = Type \<or> cls_meta c = ABCMeta then
        (case init targs tkw of
           Inl e \<Rightarrow> (Inl e, w\<lparr>constructed := constructed w @ [(cls_name c, targs, tkw)]\<rparr>)
         | Inr attrs \<Rightarrow>
             (Inr \<lparr>f_instance = next_id w, f_name = cls_name c @ ''SpyFactory'',
                   f_target = c, f_closure_instance = next_id w, f_wrapper = wr\<rparr>,
              w\<lparr>constructed := constructed w @ [(cls_name c, targs, tkw)],
                next_id := Suc (next_id w),
                heap := dict_setitem (heap w) (next_id w) \<lparr>obj_class = c, obj_attrs = attrs\<rparr>\<rparr>))
      else
        (Inl (TypeError (''Received an instance of '' @ type_name (Meta (cls_meta c))
                @ ''(), expected target='' @ type_name (Meta (cls_meta c)) @ ''.'')), w))"
  by (cases "cls_meta c")
     (simp_all add: make_spy_def call_class_def class_name_of_def Let_def split: sum.splits)

lemma make_spy_Function:
  "make_spy (Function n) targs wr tkw w =
     (Inl (TypeError ''The target must be a class like object - received a FunctionType.''), w)"
  by (simp add: make_spy_def)

lemma make_spy_Object:
  "make_spy (Object ty cls) targs wr tkw w =
     (Inl (TypeError (''Received an instance of '' @ class_name_of (Object ty cls)
             @ ''(), expected target='' @ class_name_of (Object ty cls) @ ''.'')), w)"
  by (simp add: make_spy_def Let_def)

lemma make_spy_InrD:
  assumes "make_spy (Class c init) targs wr tkw w = (Inr f, w')"
  shows "\<exists>attrs. init targs tkw = Inr attrs
     \<and> f = \<lparr>f_instance = next_id w, f_name = cls_name c @ ''SpyFactory'',
            f_target = c, f_closure_instance = next_id w, f_wrapper = wr\<rparr>
     \<and> w' = w\<lparr>constructed := constructed w @ [(cls_name c, targs, tkw)],
              next_id := Suc (next_id w),
              heap := dict_setitem (heap w) (next_id w) \<lparr>obj_class = c, obj_attrs = attrs\<rparr>\<rparr>"
  using assms by (auto simp: make_spy_Class split: if_splits sum.splits)

lemma factory_kw_get:
  "dict_get (factory_kw f kw_in) k =
     (if k = ''wraps'' then Some (VObj (f_closure_instance f))
      else if k = ''spec_set'' then Some (VClass (f_target f))
      else if k = ''spec'' then Some (VClass (f_target f))
      else (case map_of (rev kw_in) k of
              Some v \<Rightarrow> Some v
            | None \<Rightarrow> if k = ''name'' then Some (VStr (cls_name (f_target f) @ ''()'')) else None))"
  by (simp add: factory_kw_def dict_get_def map_of_dict_update map_add_def split: option.splits)

lemma factory_call_world: "snd (factory_call f args kw_in w) = w"
  by (simp add: factory_call_def split: sum.splits)

lemma factory_calls_eq:
  "factory_calls f reqs w =
     (map (\<lambda>req. fst (factory_call f (fst req) (snd req) w)) reqs, w)"
proof (induction reqs)
  case Nil
  show ?case by simp
next
  case (Cons req reqs)
  obtain r w' where c: "factory_call f (fst req) (snd req) w = (r, w')"
    by (cases "factory_call f (fst req) (snd req) w")
  with factory_call_world [of f "fst req" "snd req" w] have "w' = w" by simp
  with c Cons.IH show ?case by simp
qed

lemma make_Client_factory:
  "make_spy (Class Client keep_kwargs) [] MagicMock [(''api_url'', VStr ''u'')] empty_world
     = (Inr Client_factory, Client_world)"
  by (simp add: make_spy_Class Client_def empty_world_def Client_world_def keep_kwargs_def Client_factory_def)

lemma Client_doc: "getattr_doc Client_world 0 = VStr ''A client.''"
  by (simp add: getattr_doc_def Client_world_def dict_get_def Client_def)

section \<open>The spy factory: results\<close>

text \<open>
  C1. For a factory that \<open>make_spy\<close> returned for the class \<open>c\<close>, and keyword arguments
  of the caller (a dict: each key once), the configuration that the wrapper receives
  binds \<open>spec\<close> and \<open>spec_set\<close> to the target and \<open>wraps\<close> to the instance, whatever the
  caller passed under these three names; it binds \<open>name\<close> to the caller's value when
  there is one and to \<open>"<TargetName>()"\<close> otherwise; every other key is bound as the
  caller bound it. Building the configuration cannot fail, and the call of the factory
  hands exactly this configuration to the wrapper.
\<close>

theorem factory_kw_precedence:
  assumes "make_spy (Class c init) targs wr tkw w = (Inr f, w')"
      and "distinct (map fst kw_in)"
  shows "dict_get (factory_kw f kw_in) ''spec'' = Some (VClass c)
     \<and> dict_get (factory_kw f kw_in) ''spec_set'' = Some (VClass c)
     \<and> dict_get (factory_kw f kw_in) ''wraps'' = Some (VObj (factory_instance f))
     \<and> dict_get (factory_kw f kw_in) ''name''
         = (case dict_get kw_in ''name'' of
              Some v \<Rightarrow> Some v
            | None \<Rightarrow> Some (VStr (cls_name c @ ''()'')))
     \<and> (\<forall>k. k \<notin> {''name'', ''spec'', ''spec_set'', ''wraps''} \<longrightarrow>
           dict_get (factory_kw f kw_in) k = dict_get kw_in k)
     \<and> fst (factory_call f args kw_in w'') =
         (case w_new wr args (factory_kw f kw_in) of
            Inl e \<Rightarrow> Inl e
          | Inr spy \<Rightarrow> Inr (spy\<lparr>p_doc := getattr_doc w'' (factory_instance f)\<rparr>))"
proof -
  from assms(1) obtain attrs where
    f: "f = \<lparr>f_instance = next_id w, f_name = cls_name c @ ''SpyFactory'',
            f_target = c, f_closure_instance = next_id w, f_wrapper = wr\<rparr>"
    using make_spy_InrD by blast
  have rev: "map_of (rev kw_in) = map_of kw_in"
    using assms(2) by (rule map_of_rev_distinct)
  have 1: "dict_get (factory_kw f kw_in) ''spec'' = Some (VClass c)"
    by (simp add: factory_kw_get f)
  have 2: "dict_get (factory_kw f kw_in) ''spec_set'' = Some (VClass c)"
    by (simp add: factory_kw_get f)
  have 3: "dict_get (factory_kw f kw_in) ''wraps'' = Some (VObj (factory_instance f))"
    by (simp add: factory_kw_get f factory_instance_def)
  have 4: "dict_get (factory_kw f kw_in) ''name''
         = (case dict_get kw_in ''name'' of
              Some v \<Rightarrow> Some v
            | None \<Rightarrow> Some (VStr (cls_name c @ ''()'')))"
    unfolding factory_kw_get by (simp add: f rev dict_get_def split: option.splits)
  have 5: "\<forall>k. k \<notin> {''name'', ''spec'', ''spec_set'', ''wraps''} \<longrightarrow>
           dict_get (factory_kw f kw_in) k = dict_get kw_in k"
    unfolding factory_kw_get by (simp add: rev dict_get_def split: option.splits)
  have 6: "fst (factory_call f args kw_in w'') =
         (case w_new wr args (factory_kw f kw_in) of
            Inl e \<Rightarrow> Inl e
          | Inr spy \<Rightarrow> Inr (spy\<lparr>p_doc := getattr_doc w'' (factory_instance f)\<rparr>))"
    by (simp add: factory_call_def f factory_instance_def split: sum.splits)
  from 1 2 3 4 5 6 show ?thesis by (intro conjI)
qed

text \<open>
  The caller passes values for \<open>spec\<close> and \<open>wraps\<close>, a display name and one more option:
  the two reserved values are replaced, the name and the option are kept.
\<close>

theorem factory_kw_precedence_witness:
  "make_spy (Class Client keep_kwargs) [] MagicMock [(''api_url'', VStr ''u'')] empty_world
     = (Inr Client_factory, Client_world)
   \<and> distinct (map fst [(''spec'', VInt 1), (''name'', VStr ''Custom''),
                         (''wraps'', VNone), (''unsafe'', VBool True)])
   \<and> factory_kw Client_factory
        [(''spec'', VInt 1), (''name'', VStr ''Custom''), (''wraps'', VNone),
         (''unsafe'', VBool True)]
     = [(''name'', VStr ''Custom''), (''spec'', VClass Client), (''wraps'', VObj 0),
        (''unsafe'', VBool True), (''spec_set'', VClass Client)]
   \<and> dict_get (factory_kw Client_factory
        [(''spec'', VInt 1), (''name'', VStr ''Custom''), (''wraps'', VNone),
         (''unsafe'', VBool True)]) ''spec'' = Some (VClass Client)"
proof -
  have d: "distinct (map fst [(''spec'', VInt 1), (''name'', VStr ''Custom''),
                         (''wraps'', VNone), (''unsafe'', VBool True)])"
    by simp
  have k: "factory_kw Client_factory
        [(''spec'', VInt 1), (''name'', VStr ''Custom''), (''wraps'', VNone),
         (''unsafe'', VBool True)]
     = [(''name'', VStr ''Custom''), (''spec'', VClass Client), (''wraps'', VObj 0),
        (''unsafe'', VBool True), (''spec_set'', VClass Client)]"
    by (simp add: factory_kw_def dict_update_def Client_factory_def Client_def)
  from factory_kw_precedence [OF make_Client_factory d]
  have s: "dict_get (factory_kw Client_factory
        [(''spec'', VInt 1), (''name'', VStr ''Custom''), (''wraps'', VNone),
         (''unsafe'', VBool True)]) ''spec'' = Some (VClass Client)"
    by (rule conjunct1)
  from make_Client_factory d k s show ?thesis by (intro conjI)
qed

text \<open>
  C2. \<open>make_spy\<close> calls the target class once, when the factory is made, and the calls
  of the factory call it no more: they leave the world as it is, so the object under
  the instance's identity stays the one that was constructed. The variable that
  \<open>__call__\<close> closes over and the attribute behind the \<open>instance\<close> accessor are the same
  object, and every proxy is what the wrapper builds from a configuration whose
  forwarding target \<open>wraps\<close> is that object.
\<close>

theorem one_instance_per_factory:
  assumes "make_spy (Class c init) targs wr tkw w = (Inr f, w')"
      and "factory_calls f reqs w' = (rs, w'')"
  shows "constructed w' = constructed w @ [(cls_name c, targs, tkw)]
     \<and> w'' = w'
     \<and> f_closure_instance f = factory_instance f
     \<and> (\<exists>attrs. init targs tkw = Inr attrs
          \<and> dict_get (heap w'') (factory_instance f) = Some \<lparr>obj_class = c, obj_attrs = attrs\<rparr>)
     \<and> rs = map (\<lambda>req.
               case w_new wr (fst req) (factory_kw f (snd req)) of
                 Inl e \<Rightarrow> Inl e
               | Inr spy \<Rightarrow> Inr (spy\<lparr>p_doc := getattr_doc w' (factory_instance f)\<rparr>)) reqs
     \<and> (\<forall>kw_in. dict_get (factory_kw f kw_in) ''wraps'' = Some (VObj (factory_instance f)))"
proof -
  from assms(1) obtain attrs where
    i: "init targs tkw = Inr attrs" and
    f: "f = \<lparr>f_instance = next_id w, f_name = cls_name c @ ''SpyFactory'',
            f_target = c, f_closure_instance = next_id w, f_wrapper = wr\<rparr>" and
    w': "w' = w\<lparr>constructed := constructed w @ [(cls_name c, targs, tkw)],
              next_id := Suc (next_id w),
              heap := dict_setitem (heap w) (next_id w) \<lparr>obj_class = c, obj_attrs = attrs\<rparr>\<rparr>"
    using make_spy_InrD by blast
  from assms(2) have w'': "w'' = w'" and
    rs: "rs = map (\<lambda>req. fst (factory_call f (fst req) (snd req) w')) reqs"
    by (auto simp: factory_calls_eq)
  have 1: "constructed w' = constructed w @ [(cls_name c, targs, tkw)]"
    by (simp add: w')
  have 3: "f_closure_instance f = factory_instance f"
    by (simp add: f factory_instance_def)
  have "dict_get (heap w'') (factory_instance f) = Some \<lparr>obj_class = c, obj_attrs = attrs\<rparr>"
    by (simp add: w'' w' f factory_instance_def dict_get_def map_of_dict_setitem)
  with i have 4: "\<exists>attrs. init targs tkw = Inr attrs
          \<and> dict_get (heap w'') (factory_instance f) = Some \<lparr>obj_class = c, obj_attrs = attrs\<rparr>"
    by blast
  have 5: "rs = map (\<lambda>req.
               case w_new wr (fst req) (factory_kw f (snd req)) of
                 Inl e \<Rightarrow> Inl e
               | Inr spy \<Rightarrow> Inr (spy\<lparr>p_doc := getattr_doc w' (factory_instance f)\<rparr>)) reqs"
    unfolding rs
    by (rule map_cong) (simp_all add: factory_call_def f factory_instance_def split: sum.splits)
  have 6: "\<forall>kw_in. dict_get (factory_kw f kw_in) ''wraps'' = Some (VObj (factory_instance f))"
    by (simp add: factory_kw_get f factory_instance_def)
  from 1 w'' 3 4 5 6 show ?thesis by (intro conjI)
qed

text \<open>
  Two calls of one factory, the second with a forwarding target of the caller's: both
  proxies wrap the object \<open>0\<close>, and the one call of the class is the only one on record.
\<close>

theorem one_instance_per_factory_witness:
  "make_spy (Class Client keep_kwargs) [] MagicMock [(''api_url'', VStr ''u'')] empty_world
     = (Inr Client_factory, Client_world)
   \<and> factory_calls Client_factory [([], []), ([], [(''wraps'', VObj 7)])] Client_world
     = ([Inr \<lparr>p_kind = ''MagicMock'', p_args = [],
              p_kw = [(''name'', VStr ''Client()''), (''spec'', VClass Client),
                      (''spec_set'', VClass Client), (''wraps'', VObj 0)],
              p_doc = VStr ''A client.''\<rparr>,
         Inr \<lparr>p_kind = ''MagicMock'', p_args = [],
              p_kw = [(''name'', VStr ''Client()''), (''wraps'', VObj 0),
                      (''spec'', VClass Client), (''spec_set'', VClass Client)],
              p_doc = VStr ''A client.''\<rparr>], Client_world)
   \<and> constructed Client_world = constructed empty_world @ [(''Client'', [], [(''api_url'', VStr ''u'')])]
   \<and> dict_get (factory_kw Client_factory [(''wraps'', VObj 7)]) ''wraps''
       = Some (VObj (factory_instance Client_factory))"
proof -
  have c1: "factory_call Client_factory [] [] Client_world
     = (Inr \<lparr>p_kind = ''MagicMock'', p_args = [],
              p_kw = [(''name'', VStr ''Client()''), (''spec'', VClass Client),
                      (''spec_set'', VClass Client), (''wraps'', VObj 0)],
              p_doc = VStr ''A client.''\<rparr>, Client_world)"
    by (simp add: factory_call_def factory_kw_def dict_update_def Client_factory_def
        MagicMock_def recording_proxy_def Client_doc Client_def)
  have c2: "factory_call Client_factory [] [(''wraps'', VObj 7)] Client_world
     = (Inr \<lparr>p_kind = ''MagicMock'', p_args = [],
              p_kw = [(''name'', VStr ''Client()''), (''wraps'', VObj 0),
                      (''spec'', VClass Client), (''spec_set'', VClass Client)],
              p_doc = VStr ''A client.''\<rparr>, Client_world)"
    by (simp add: factory_call_def factory_kw_def dict_update_def Client_factory_def
        MagicMock_def recording_proxy_def Client_doc Client_def)
  have h2: "factory_calls Client_factory [([], []), ([], [(''wraps'', VObj 7)])] Client_world
     = ([Inr \<lparr>p_kind = ''MagicMock'', p_args = [],
              p_kw = [(''name'', VStr ''Client()''), (''spec'', VClass Client),
                      (''spec_set'', VClass Client), (''wraps'', VObj 0)],
              p_doc = VStr ''A client.''\<rparr>,
         Inr \<lparr>p_kind = ''MagicMock'', p_args = [],
              p_kw = [(''name'', VStr ''Client()''), (''wraps'', VObj 0),
                      (''spec'', VClass Client), (''spec_set'', VClass Client)],
              p_doc = VStr ''A client.''\<rparr>], Client_world)"
    by (simp add: c1 c2)
  note t = one_instance_per_factory [OF make_Client_factory h2]
  from t have "constructed Client_world
      = constructed empty_world @ [(cls_name Client, [], [(''api_url'', VStr ''u'')])]"
    by (rule conjunct1)
  then have a: "constructed Client_world = constructed empty_world @ [(''Client'', [], [(''api_url'', VStr ''u'')])]"
    by (simp add: Client_def)
  from t have "\<forall>kw_in. dict_get (factory_kw Client_factory kw_in) ''wraps''
       = Some (VObj (factory_instance Client_factory))"
    by blast
  then have b: "dict_get (factory_kw Client_factory [(''wraps'', VObj 7)]) ''wraps''
       = Some (VObj (factory_instance Client_factory))"
    by (rule spec)
  from make_Client_factory h2 a b show ?thesis by (intro conjI)
qed

text \<open>
  C9. For a target that is accepted (a class whose metaclass is \<open>type\<close> or \<open>ABCMeta\<close>),
  \<open>make_spy\<close> calls the class once, with the constructor arguments it was given. When
  that call raises, \<open>make_spy\<close> raises the same exception and returns no factory; when it
  returns, the factory's instance is the object that was constructed.
\<close>

theorem construction_exactly_once:
  "cls_meta c = Type \<or> cls_meta c = ABCMeta \<longrightarrow>
     constructed (snd (make_spy (Class c init) targs wr tkw w))
       = constructed w @ [(cls_name c, targs, tkw)]
     \<and> (\<forall>e. init targs tkw = Inl e \<longrightarrow> fst (make_spy (Class c init) targs wr tkw w) = Inl e)
     \<and> (\<forall>attrs. init targs tkw = Inr attrs \<longrightarrow>
          (\<exists>f. fst (make_spy (Class c init) targs wr tkw w) = Inr f
             \<and> dict_get (heap (snd (make_spy (Class c init) targs wr tkw w))) (factory_instance f)
                 = Some \<lparr>obj_class = c, obj_attrs = attrs\<rparr>))"
  by (cases "init targs tkw")
     (simp_all add: make_spy_Class factory_instance_def dict_get_def map_of_dict_setitem)

text \<open>A constructor that raises \<open>ValueError\<close>: the caller of \<open>make_spy\<close> gets that exception.\<close>

theorem construction_exactly_once_witness:
  "cls_meta Client = Type
   \<and> refuse [VInt 1] [(''api_url'', VStr ''u'')] = Inl (Exn ''ValueError'' ''bad url'')
   \<and> make_spy (Class Client refuse) [VInt 1] MagicMock [(''api_url'', VStr ''u'')] empty_world
      = (Inl (Exn ''ValueError'' ''bad url''),
         \<lparr>next_id = 0, heap = [],
          constructed = [(''Client'', [VInt 1], [(''api_url'', VStr ''u'')])]\<rparr>)"
  using construction_exactly_once [of Client refuse "[VInt 1]" MagicMock
      "[(''api_url'', VStr ''u'')]" empty_world]
  by (simp add: make_spy_Class Client_def refuse_def empty_world_def)

text \<open>
  C6, as stated: \<open>make_spy\<close> fails with the invalid-target error in two cases only, a
  plain function and an instance that is not a type. A class of another metaclass is a
  class, neither a function nor an instance, and \<open>make_spy\<close> fails for it with the error
  of the instance form.
\<close>

theorem invalid_target_counterexample:
  "make_spy (Class Color keep_kwargs) [] MagicMock [] empty_world
     = (Inl (TypeError ''Received an instance of EnumMeta(), expected target=EnumMeta.''),
        empty_world)
   \<and> is_class (Class Color keep_kwargs)
   \<and> \<not> is_function (Class Color keep_kwargs)
   \<and> \<not> is_instance (Class Color keep_kwargs)"
  by (simp add: make_spy_Class Color_def)

text \<open>
  C6, amended: \<open>make_spy\<close> fails with the invalid-target error, before it constructs
  anything, exactly for the targets whose type is neither \<open>type\<close> nor \<open>ABCMeta\<close>: for a
  plain function with the message that it received a function, and for every other such
  target (an instance that is not a type, and also a class of another metaclass) with
  the message that names \<open>target.__class__\<close> twice, or \<open>object\<close> when the target has no
  \<open>__class__\<close>. That name is the target's own runtime type unless the target overrides
  \<open>__class__\<close>, as a mock made with a spec does. For a target whose type is \<open>type\<close> or
  \<open>ABCMeta\<close> the outcome is that of constructing the target.
\<close>

theorem invalid_target_kind:
  "(type_of t \<noteq> Meta Type \<and> type_of t \<noteq> Meta ABCMeta \<longrightarrow>
      make_spy t targs wr tkw w =
        (Inl (TypeError
           (if is_function t
            then ''The target must be a class like object - received a FunctionType.''
            else ''Received an instance of '' @ class_name_of t
                   @ ''(), expected target='' @ class_name_of t @ ''.'')), w))
   \<and> (type_of t = Meta Type \<or> type_of t = Meta ABCMeta \<longrightarrow>
        (\<exists>c init. t = Class c init
           \<and> fst (make_spy t targs wr tkw w) =
               (case init targs tkw of
                  Inl e \<Rightarrow> Inl e
                | Inr attrs \<Rightarrow>
                    Inr \<lparr>f_instance = next_id w, f_name = cls_name c @ ''SpyFactory'',
                         f_target = c, f_closure_instance = next_id w, f_wrapper = wr\<rparr>)))
   \<and> make_spy (Function n) targs wr tkw w =
        (Inl (TypeError ''The target must be a class like object - received a FunctionType.''), w)
   \<and> make_spy (Object ty (Some n)) targs wr tkw w =
        (Inl (TypeError (''Received an instance of '' @ n @ ''(), expected target='' @ n @ ''.'')), w)
   \<and> make_spy (Object ty None) targs wr tkw w =
        (Inl (TypeError ''Received an instance of object(), expected target=object.''), w)
   \<and> class_name_of (Object ty (Some ty)) = ty
   \<and> class_name_of (Class c init) = type_name (type_of (Class c init))"
proof -
  have 1: "type_of t \<noteq> Meta Type \<and> type_of t \<noteq> Meta ABCMeta \<longrightarrow>
      make_spy t targs wr tkw w =
        (Inl (TypeError
           (if is_function t
            then ''The target must be a class like object - received a FunctionType.''
            else ''Received an instance of '' @ class_name_of t
                   @ ''(), expected target='' @ class_name_of t @ ''.'')), w)"
    by (cases t) (simp_all add: make_spy_def Let_def)
  have 2: "type_of t = Meta Type \<or> type_of t = Meta ABCMeta \<longrightarrow>
        (\<exists>c init. t = Class c init
           \<and> fst (make_spy t targs wr tkw w) =
               (case init targs tkw of
                  Inl e \<Rightarrow> Inl e
                | Inr attrs \<Rightarrow>
                    Inr \<lparr>f_instance = next_id w, f_name = cls_name c @ ''SpyFactory'',
                         f_target = c, f_closure_instance = next_id w, f_wrapper = wr\<rparr>))"
    by (cases t) (auto simp: make_spy_Class split: sum.splits)
  from 1 2 show ?thesis
    by (intro conjI) (simp_all add: make_spy_Function make_spy_Object class_name_of_def)
qed

text \<open>
  An instance of \<open>Client\<close> is refused under the name of its type. A mock made with the
  spec \<open>Client\<close> is refused under the name \<open>Client\<close>, not under the name of its own
  type. The class \<open>Client\<close> is accepted and constructed.
\<close>

theorem invalid_target_kind_witness:
  "type_of (Object ''Client'' (Some ''Client'')) \<noteq> Meta Type
   \<and> type_of (Object ''Client'' (Some ''Client'')) \<noteq> Meta ABCMeta
   \<and> make_spy (Object ''Client'' (Some ''Client'')) [] MagicMock [] empty_world
      = (Inl (TypeError ''Received an instance of Client(), expected target=Client.''),
         empty_world)
   \<and> type_of (Object ''MagicMock'' (Some ''Client'')) = Plain ''MagicMock''
   \<and> make_spy (Object ''MagicMock'' (Some ''Client'')) [] MagicMock [] empty_world
      = (Inl (TypeError ''Received an instance of Client(), expected target=Client.''),
         empty_world)
   \<and> type_of (Class Client refuse) = Meta Type
   \<and> fst (make_spy (Class Client refuse) [] MagicMock [] empty_world)
      = Inl (Exn ''ValueError'' ''bad url'')"
  using invalid_target_kind [of "Object ''Client'' (Some ''Client'')" "[]" MagicMock "[]"
      empty_world n ty c init]
    invalid_target_kind [of "Object ''MagicMock'' (Some ''Client'')" "[]" MagicMock "[]"
      empty_world n ty c init]
    invalid_target_kind [of "Class Client refuse" "[]" MagicMock "[]" empty_world n ty c init]
  by (simp add: class_name_of_def Client_def refuse_def)

text \<open>
  C7. A class whose metaclass is neither \<open>type\<close> nor \<open>ABCMeta\<close> is a type, and \<open>make_spy\<close>
  raises for it the error of the instance form, naming the metaclass as what was received
  and as what was expected. The target is called exactly when its type is \<open>type\<close> or
  \<open>ABCMeta\<close>.
\<close>

theorem custom_metaclass_rejected:
  "(cls_meta c = CustomMeta m \<longrightarrow>
      make_spy (Class c init) targs wr tkw w =
        (Inl (TypeError (''Received an instance of '' @ m @ ''(), expected target='' @ m @ ''.'')), w)
      \<and> is_class (Class c init))
   \<and> (constructed (snd (make_spy t targs wr tkw w)) \<noteq> constructed w)
       = (type_of t = Meta Type \<or> type_of t = Meta ABCMeta)"
proof -
  have a: "(constructed (snd (make_spy t targs wr tkw w)) \<noteq> constructed w)
       = (type_of t = Meta Type \<or> type_of t = Meta ABCMeta)"
    by (cases t)
       (auto simp: make_spy_Class make_spy_Function make_spy_Object split: sum.splits)
  show ?thesis
    by (simp add: make_spy_Class a)
qed

theorem custom_metaclass_rejected_witness:
  "cls_meta Color = CustomMeta ''EnumMeta''
   \<and> make_spy (Class Color keep_kwargs) [] MagicMock [] empty_world
      = (Inl (TypeError ''Received an instance of EnumMeta(), expected target=EnumMeta.''),
         empty_world)
   \<and> constructed (snd (make_spy (Class Color keep_kwargs) [] MagicMock [] empty_world))
      = constructed empty_world"
  using custom_metaclass_rejected [of Color "''EnumMeta''" keep_kwargs "[]" MagicMock "[]"
      empty_world "Class Color keep_kwargs"]
  by (simp add: Color_def)



section \<open>The asynchronous context manager: results\<close>

lemma aenter_body: "await (aenter self) = Inr self"
  by (simp add: aenter_def)

lemma aexit_body: "await (aexit self exc_type exc tb) = Inr (VFuture (Some VNone))"
  by (simp add: aexit_def set_result_def Future_def)

text \<open>
  C8. The enter operation should resolve to the proxy itself, and the method of the class
  body returns \<open>self\<close>. On a proxy made without a spec that method is shadowed: the
  enter operation is the base class's entry, it resolves to the child mock
  \<open>proxy.__aenter__.return_value\<close>, which is not the proxy, and the call is recorded.
  The method of the class body is reached only on a proxy whose spec has no
  \<open>__aenter__\<close>; there the operation resolves to the proxy.
\<close>

theorem proxy_enter_is_child_mock:
  "proxy_aenter (new_amock 0 None)
     = (Inr (VMock 0 [''__aenter__'', ''()'']),
        \<lparr>am_id = 0, am_methods = None, am_calls = [(''__aenter__'', [])]\<rparr>)
   \<and> VMock 0 [''__aenter__'', ''()''] \<noteq> VMock 0 []
   \<and> proxy_aenter (new_amock 0 (Some Client))
     = (Inr (VMock 0 []), new_amock 0 (Some Client))"
  by (simp add: proxy_aenter_def magic_installed_def library_aenter_def new_amock_def
      Client_def aenter_body)

text \<open>
  C5. The exit operation should resolve to a false value, swallow nothing, and record
  the call. On a proxy made without a spec the base class's entry does so: it resolves
  to \<open>False\<close> and the call is recorded. On a proxy whose spec has no \<open>__aexit__\<close> the
  method of the class body runs: it reads none of its parameters and has no branch, but
  it returns the future and not the future's result. The operation resolves to a completed future, which is a true value,
  so \<open>async with\<close> swallows the exception that leaves its body, and no call is recorded.
\<close>

theorem proxy_exit_with_spec_suppresses:
  "proxy_aexit (new_amock 0 (Some Client)) exc_type exc tb
     = (Inr (VFuture (Some VNone)), new_amock 0 (Some Client))
   \<and> suppresses (fst (proxy_aexit (new_amock 0 (Some Client)) exc_type exc tb))
   \<and> am_calls (snd (proxy_aexit (new_amock 0 (Some Client)) exc_type exc tb)) = []
   \<and> proxy_aexit (new_amock 0 None) exc_type exc tb
     = (Inr (VBool False),
        \<lparr>am_id = 0, am_methods = None, am_calls = [(''__aexit__'', [exc_type, exc, tb])]\<rparr>)
   \<and> \<not> suppresses (fst (proxy_aexit (new_amock 0 None) exc_type exc tb))"
  by (simp add: proxy_aexit_def magic_installed_def library_aexit_def new_amock_def
      Client_def aexit_body suppresses_def)

end
